theory Spec2Isabelle
  imports Complex_Main
begin

section \<open>Data model of \<^verbatim>\<open>src/utils/airdrop.ts\<close>\<close>

text \<open>
  The interface \<^verbatim>\<open>VestingParameters\<close> has no members.
\<close>

type_synonym VestingParameters = unit

record UserClaimInfo =
  jetton :: string
  available_jetton_amount :: string
  total_jetton_amount :: string
  claimed_jetton_amount :: string
  vesting_parameters :: "VestingParameters option"

text \<open>
  An optional member (\<^verbatim>\<open>state_init?: string\<close>) is an \<open>option\<close>: \<open>None\<close> is the
  absent key, read as \<^verbatim>\<open>undefined\<close>.
\<close>

record InternalMessage =
  mode :: int
  address :: string
  state_init :: "string option"
  payload :: string
  amount :: string

record UserClaim = UserClaimInfo +
  claim_message :: InternalMessage

text \<open>
  The object literal returned by \<^verbatim>\<open>getTxFromUserClaim\<close>: a deadline and a list of
  messages. The message objects reuse the member names \<^verbatim>\<open>address\<close>, \<^verbatim>\<open>amount\<close> and
  \<^verbatim>\<open>payload\<close>; the two records are told apart by qualified names
  (\<open>InternalMessage.address\<close>, \<open>TxMessage.address\<close>).
\<close>

record TxMessage =
  address :: string
  amount :: string
  payload :: string
  stateInit :: "string option"

record Transaction =
  validUntil :: int
  messages :: "TxMessage list"

text \<open>
  \<^verbatim>\<open>Date.now()\<close> is the first argument: the clock reading in milliseconds since the
  epoch, an integer. \<^verbatim>\<open>Math.floor(Date.now() / 1000)\<close> divides and rounds down; the
  quotient is taken over the reals (for every time value a \<^verbatim>\<open>Date\<close> can hold, the
  correctly rounded double quotient has the same floor).
\<close>

definition getTxFromUserClaim :: "int \<Rightarrow> UserClaim \<Rightarrow> Transaction" where
  "getTxFromUserClaim now userClaim =
     \<lparr> validUntil = \<lfloor>real_of_int now / 1000\<rfloor> + 300,
       messages =
         [\<lparr> address = InternalMessage.address (claim_message userClaim),
            amount = InternalMessage.amount (claim_message userClaim),
            payload = InternalMessage.payload (claim_message userClaim),
            stateInit = state_init (claim_message userClaim) \<rparr>] \<rparr>"

section \<open>Promises\<close>

text \<open>
  A promise is looked at once it has settled, or never settles. The reasons of a
  rejection are the exceptions of the platform: \<^verbatim>\<open>fetch\<close> rejects with a
  \<^verbatim>\<open>TypeError\<close> on a network failure, \<^verbatim>\<open>response.json()\<close> with a \<^verbatim>\<open>SyntaxError\<close> on a
  body that is not JSON, an aborted or timed-out request with an \<^verbatim>\<open>AbortError\<close>;
  \<open>Thrown\<close> stands for any other value thrown.
\<close>

datatype js_error =
    TypeError string
  | SyntaxError string
  | AbortError string
  | Thrown string

datatype 'a promise = Fulfilled 'a | Rejected js_error | Pending

text \<open>
  \<^verbatim>\<open>p.then(f)\<close>: the callback runs on the fulfilment value and the promise it returns
  is adopted; a callback that returns a plain value returns \<open>Fulfilled\<close> of it, one
  that throws returns \<open>Rejected\<close>. A rejection passes through.
\<close>

fun promise_then :: "'a promise \<Rightarrow> ('a \<Rightarrow> 'b promise) \<Rightarrow> 'b promise" where
  "promise_then (Fulfilled x) f = f x"
| "promise_then (Rejected e) f = Rejected e"
| "promise_then Pending f = Pending"

text \<open>\<^verbatim>\<open>p.catch(h)\<close>: the handler runs on the reason of a rejection only.\<close>

fun promise_catch :: "'a promise \<Rightarrow> (js_error \<Rightarrow> 'a promise) \<Rightarrow> 'a promise" where
  "promise_catch (Fulfilled x) h = Fulfilled x"
| "promise_catch (Rejected e) h = h e"
| "promise_catch Pending h = Pending"

section \<open>The HTTP capability\<close>

text \<open>
  Of a \<^verbatim>\<open>Response\<close> the module reads \<^verbatim>\<open>status\<close> and calls \<^verbatim>\<open>json()\<close> once; the field
  \<open>json\<close> is the promise that call returns. The parsed body has the type \<^verbatim>\<open>any\<close>:
  a type variable.
\<close>

record 'a Response =
  status :: int
  json :: "'a promise"

text \<open>
  The network answers a GET of a URL with a promise of a response, and keeps the list
  of the URLs requested, oldest first.
\<close>

record 'a network =
  respond :: "string \<Rightarrow> 'a Response promise"
  requests :: "string list"

definition fetch :: "string \<Rightarrow> 'a network \<Rightarrow> 'a Response promise \<times> 'a network" where
  "fetch u net = (respond net u, net\<lparr>requests := requests net @ [u]\<rparr>)"

section \<open>Classifying a response\<close>

text \<open>The inline object type \<^verbatim>\<open>{ code: string; message: string }\<close>.\<close>

record ErrorDetail =
  code :: string
  message :: string

text \<open>
  \<^verbatim>\<open>AirdropClaimResponse = AirdropClaimSuccess | AirdropClaimError\<close>. The success
  variant carries \<^verbatim>\<open>info\<close> and \<^verbatim>\<open>claim\<close>, the error variant an optional \<^verbatim>\<open>info\<close> and
  \<^verbatim>\<open>error\<close>.
\<close>

datatype 'a AirdropClaimResponse =
    AirdropClaimSuccess 'a 'a
  | AirdropClaimError "'a option" ErrorDetail

text \<open>Reading the members of a result; \<open>None\<close> is a key that is not there.\<close>

fun success :: "'a AirdropClaimResponse \<Rightarrow> bool" where
  "success (AirdropClaimSuccess i c) = True"
| "success (AirdropClaimError i e) = False"

fun info :: "'a AirdropClaimResponse \<Rightarrow> 'a option" where
  "info (AirdropClaimSuccess i c) = Some i"
| "info (AirdropClaimError i e) = i"

fun claim :: "'a AirdropClaimResponse \<Rightarrow> 'a option" where
  "claim (AirdropClaimSuccess i c) = Some c"
| "claim (AirdropClaimError i e) = None"

fun error :: "'a AirdropClaimResponse \<Rightarrow> ErrorDetail option" where
  "error (AirdropClaimSuccess i c) = None"
| "error (AirdropClaimError i e) = Some e"

definition statusCodeMapping :: "int \<rightharpoonup> string" where
  "statusCodeMapping =
     [404 \<mapsto> ''not_found'',
      425 \<mapsto> ''too_early'',
      409 \<mapsto> ''already_claimed'',
      423 \<mapsto> ''locked'',
      429 \<mapsto> ''blockchain_overload'']"

text \<open>
  \<^verbatim>\<open>x || d\<close> on a string that may be \<^verbatim>\<open>undefined\<close>: the default is taken when \<open>x\<close> is
  undefined or the empty string.
\<close>

definition or_default :: "string option \<Rightarrow> string \<Rightarrow> string" where
  "or_default x d = (case x of None \<Rightarrow> d | Some s \<Rightarrow> if s = [] then d else s)"

definition handleApiResponse :: "'a Response \<Rightarrow> 'a \<Rightarrow> 'a AirdropClaimResponse" where
  "handleApiResponse response data =
     (if status response = 200 then AirdropClaimSuccess data data
      else
        let errorCode = or_default (statusCodeMapping (status response)) ''unknown_error'';
            errorMessage =
              (if status response = 425 then ''The nearest vesting date has not arrived yet''
               else if status response = 409 then ''All Jettons have already been claimed''
               else if status response = 423 then ''Airdrop is locked by admin''
               else if status response = 429 then ''Blockchain is currently overloaded''
               else if status response = 404 then ''Airdrop not found or not processed yet''
               else ''Unknown error occurred'')
        in AirdropClaimError (Some data) \<lparr> code = errorCode, message = errorMessage \<rparr>)"

section \<open>Fetching a claim\<close>

definition baseUrl :: "bool \<Rightarrow> string" where
  "baseUrl testnet = (if testnet then ''testnet'' else ''mainnet'') @ ''-airdrop.tonapi.io''"

definition url :: "bool \<Rightarrow> string \<Rightarrow> string \<Rightarrow> string" where
  "url testnet connectedAddress airdropId =
     ''https://'' @ baseUrl testnet @ ''/v2/airdrop/claim/'' @ connectedAddress
       @ ''?id='' @ airdropId"

text \<open>
  The third parameter has a default: an argument left out (\<open>None\<close>) is \<^verbatim>\<open>false\<close>.
  The result is the promise returned and the network after the call.
\<close>

definition fetchAirdropClaim ::
  "string \<Rightarrow> string \<Rightarrow> bool option \<Rightarrow> 'a network
     \<Rightarrow> 'a AirdropClaimResponse promise \<times> 'a network" where
  "fetchAirdropClaim airdropId connectedAddress testnet_arg net =
     (let testnet = (case testnet_arg of None \<Rightarrow> False | Some b \<Rightarrow> b);
          (p, net') = fetch (url testnet connectedAddress airdropId) net
      in (promise_catch
            (promise_then
               (promise_then p
                  (\<lambda>response. promise_then (json response)
                     (\<lambda>data. Fulfilled (response, data))))
               (\<lambda>(response, data). Fulfilled (handleApiResponse response data)))
            (\<lambda>_. Fulfilled
                   (AirdropClaimError None
                      \<lparr> code = ''network_error'',
                        message = ''Network error. Please try again later.'' \<rparr>)),
          net'))"

section \<open>JSON bodies and the amounts of a claim\<close>

text \<open>
  A parsed JSON value. The numbers are left abstract (a type parameter): nothing
  here computes on them. An object is its list of members, keys distinct.
\<close>

datatype 'n json_value =
    JNull
  | JBool bool
  | JNumber 'n
  | JString string
  | JArray "'n json_value list"
  | JObject "(string \<times> 'n json_value) list"

text \<open>\<^verbatim>\<open>v[k]\<close> on a parsed value: a member of an object, and nothing otherwise.\<close>

fun member_of :: "'n json_value \<Rightarrow> string \<Rightarrow> 'n json_value option" where
  "member_of (JObject kvs) k = map_of kvs k"
| "member_of v k = None"

text \<open>
  The spec's reading of an amount, "decimal-string-encoded unsigned integer": a
  string of one or more decimal digits, read in base ten.
\<close>

definition is_digit :: "char \<Rightarrow> bool" where
  "is_digit c = (48 \<le> (of_char c :: nat) \<and> (of_char c :: nat) \<le> 57)"

definition decimal_amount :: "string \<Rightarrow> nat option" where
  "decimal_amount s =
     (if s \<noteq> [] \<and> list_all is_digit s
      then Some (foldl (\<lambda>n c. 10 * n + (of_char c - 48)) 0 s)
      else None)"

definition amount_member :: "'n json_value \<Rightarrow> string \<Rightarrow> nat option" where
  "amount_member v k =
     (case member_of v k of Some (JString s) \<Rightarrow> decimal_amount s | _ \<Rightarrow> None)"

text \<open>
  The spec's invariant on a ClaimInfo, \<open>available_amount \<le> total_amount\<close>, on the
  JSON value that is carried as \<open>info\<close>: both amounts are there, both are decimal
  strings, and the first is at most the second.
\<close>

definition spec_available_le_total :: "'n json_value \<Rightarrow> bool" where
  "spec_available_le_total v =
     (case (amount_member v ''available_jetton_amount'',
            amount_member v ''total_jetton_amount'') of
        (Some a, Some t) \<Rightarrow> a \<le> t
      | _ \<Rightarrow> False)"

text \<open>
  A body the API can send with status 200, in the shape of the spec's first
  scenario, with 200 available of a total of 100.
\<close>

definition overdrawn_body :: "int json_value" where
  "overdrawn_body =
     JObject
       [(''jetton'', JString ''X''),
        (''available_jetton_amount'', JString ''200''),
        (''total_jetton_amount'', JString ''100''),
        (''claimed_jetton_amount'', JString ''0''),
        (''claim_message'',
           JObject
             [(''mode'', JNumber 3),
              (''address'', JString ''A''),
              (''payload'', JString ''P''),
              (''amount'', JString ''100'')])]"

section \<open>Example inputs\<close>

text \<open>
  Two claims with the same message but for its mode, and different jettons, amounts
  and vesting parameters.
\<close>

definition example_claim :: UserClaim where
  "example_claim =
     \<lparr> jetton = ''X'', available_jetton_amount = ''100'', total_jetton_amount = ''100'',
       claimed_jetton_amount = ''0'', vesting_parameters = None,
       claim_message =
         \<lparr> mode = 3, InternalMessage.address = ''A'', state_init = None,
           InternalMessage.payload = ''P'', InternalMessage.amount = ''100'' \<rparr> \<rparr>"

definition other_claim :: UserClaim where
  "other_claim =
     \<lparr> jetton = ''Y'', available_jetton_amount = ''7'', total_jetton_amount = ''9'',
       claimed_jetton_amount = ''2'', vesting_parameters = Some (),
       claim_message =
         \<lparr> mode = 64, InternalMessage.address = ''A'', state_init = None,
           InternalMessage.payload = ''P'', InternalMessage.amount = ''100'' \<rparr> \<rparr>"

text \<open>
  Three networks: one with no connection, one that answers 502 with a page that is
  not JSON, and one that answers 200 with the body above.
\<close>

definition offline_network :: "int json_value network" where
  "offline_network =
     \<lparr> respond = (\<lambda>u. Rejected (TypeError ''Failed to fetch'')), requests = [] \<rparr>"

definition html_network :: "int json_value network" where
  "html_network =
     \<lparr> respond =
         (\<lambda>u. Fulfilled
            \<lparr> status = 502, json = Rejected (SyntaxError ''Unexpected token <'') \<rparr>),
       requests = [] \<rparr>"

definition overdrawn_network :: "int json_value network" where
  "overdrawn_network =
     \<lparr> respond = (\<lambda>u. Fulfilled \<lparr> status = 200, json = Fulfilled overdrawn_body \<rparr>),
       requests = [] \<rparr>"

section \<open>The function body as JavaScript\<close>

text \<open>
  The typed definitions above cannot fail and have no world to change: they are
  functions. To say that the code neither throws nor reaches the outside, the body
  of \<^verbatim>\<open>handleApiResponse\<close> is also kept as a program and run by an evaluator of the
  fragment of JavaScript it is written in, in which reading a member of \<^verbatim>\<open>null\<close>
  throws and a call reaches the host.

  A value is \<^verbatim>\<open>undefined\<close>, \<^verbatim>\<open>null\<close>, a boolean, a number, a string, an array or
  an object. The numbers are a type parameter (no NaN among them). An object is its
  list of own members; a key is a name, or a number for the keys that are canonical
  numeric strings (\<^verbatim>\<open>{404: ...}\<close> and \<^verbatim>\<open>o[404]\<close> both mean the key \<^verbatim>\<open>"404"\<close>).
\<close>

datatype 'n key = Name string | Idx 'n

datatype 'n js_value =
    VUndefined
  | VNull
  | VBoolean bool
  | VNumber 'n
  | VString string
  | VArray "'n js_value list"
  | VObject "('n key \<times> 'n js_value) list"

text \<open>
  The expressions of the fragment: a literal, a variable, \<^verbatim>\<open>e.k\<close>, \<^verbatim>\<open>e[e]\<close>,
  \<^verbatim>\<open>e === e\<close>, \<^verbatim>\<open>e || e\<close>, an object literal, and a call \<^verbatim>\<open>f(e, ...)\<close> of a function of
  the host. The statements: \<^verbatim>\<open>const\<close>, \<^verbatim>\<open>let\<close>, assignment to a variable, \<^verbatim>\<open>if\<close> without
  \<^verbatim>\<open>else\<close>, \<^verbatim>\<open>switch\<close> with number-literal cases and no default, \<^verbatim>\<open>break\<close>, \<^verbatim>\<open>return\<close>.
\<close>

datatype 'n expr =
    ELit "'n js_value"
  | EVar string
  | EMember "'n expr" string
  | EIndex "'n expr" "'n expr"
  | EStrictEq "'n expr" "'n expr"
  | EOr "'n expr" "'n expr"
  | EObject "('n key \<times> 'n expr) list"
  | ECall string "'n expr list"

datatype 'n stmt =
    SConst string "'n expr"
  | SLet string "'n expr"
  | SAssign string "'n expr"
  | SIf "'n expr" "'n stmt list"
  | SSwitch "'n expr" "('n \<times> 'n stmt list) list"
  | SBreak
  | SReturn "'n expr"

text \<open>
  An evaluation returns a value, throws, or is \<open>Unsupported\<close>: the program has left
  the fragment (it has read an inherited member, compared two objects, ...), and
  nothing is said of it.
\<close>

datatype 'a outcome = Returns 'a | Throws js_error | Unsupported

text \<open>A variable is bound to its value, with a flag for \<^verbatim>\<open>const\<close>.\<close>

type_synonym 'n env = "string \<Rightarrow> (bool \<times> 'n js_value) option"

text \<open>
  The host: what a call of a named function returns and does to the world. This is
  where \<^verbatim>\<open>fetch\<close> would live; the world is whatever the host keeps.
\<close>

type_synonym ('n, 'w) host =
  "string \<Rightarrow> 'n js_value list \<Rightarrow> 'w \<Rightarrow> 'n js_value outcome \<times> 'w"

fun truthy :: "'n::zero js_value \<Rightarrow> bool" where
  "truthy VUndefined = False"
| "truthy VNull = False"
| "truthy (VBoolean b) = b"
| "truthy (VNumber n) = (n \<noteq> 0)"
| "truthy (VString s) = (s \<noteq> [])"
| "truthy (VArray vs) = True"
| "truthy (VObject ms) = True"

text \<open>The members every object inherits from \<^verbatim>\<open>Object.prototype\<close>.\<close>

definition object_prototype_names :: "string list" where
  "object_prototype_names =
     [''constructor'', ''toString'', ''toLocaleString'', ''valueOf'', ''hasOwnProperty'',
      ''isPrototypeOf'', ''propertyIsEnumerable'', ''__proto__'', ''__defineGetter__'',
      ''__defineSetter__'', ''__lookupGetter__'', ''__lookupSetter__'']"

fun is_Idx :: "'n key \<Rightarrow> bool" where
  "is_Idx (Idx n) = True"
| "is_Idx (Name s) = False"

text \<open>
  Reading \<^verbatim>\<open>v[k]\<close>. On \<^verbatim>\<open>undefined\<close> and \<^verbatim>\<open>null\<close> it throws a \<^verbatim>\<open>TypeError\<close>. On an object,
  an own member is returned and a missing one is \<^verbatim>\<open>undefined\<close>, unless the name is
  inherited, or is a string where the object has numeric keys (the string might be
  one of them). Members of strings, numbers, booleans and arrays are outside the
  fragment.
\<close>

fun get_member :: "'n js_value \<Rightarrow> 'n js_value \<Rightarrow> 'n js_value outcome" where
  "get_member VUndefined k = Throws (TypeError ''Cannot read properties of undefined'')"
| "get_member VNull k = Throws (TypeError ''Cannot read properties of null'')"
| "get_member (VObject ms) (VString s) =
     (case map_of ms (Name s) of
        Some v \<Rightarrow> Returns v
      | None \<Rightarrow>
          if s \<in> set object_prototype_names \<or> list_ex (\<lambda>(k, v). is_Idx k) ms then Unsupported
          else Returns VUndefined)"
| "get_member (VObject ms) (VNumber n) =
     (case map_of ms (Idx n) of Some v \<Rightarrow> Returns v | None \<Rightarrow> Returns VUndefined)"
| "get_member v k = Unsupported"

text \<open>
  \<^verbatim>\<open>a === b\<close>: values of one primitive kind are compared, values of different kinds
  differ; two objects are compared by identity, which a value does not have.
\<close>

fun strict_equal :: "'n js_value \<Rightarrow> 'n js_value \<Rightarrow> bool outcome" where
  "strict_equal (VObject a) (VObject b) = Unsupported"
| "strict_equal (VObject a) (VArray b) = Unsupported"
| "strict_equal (VArray a) (VObject b) = Unsupported"
| "strict_equal (VArray a) (VArray b) = Unsupported"
| "strict_equal a b = Returns (a = b)"

text \<open>A member of an object literal: a repeated key keeps its place and takes the new value.\<close>

fun put_member ::
  "('n key \<times> 'n js_value) list \<Rightarrow> 'n key \<Rightarrow> 'n js_value \<Rightarrow> ('n key \<times> 'n js_value) list" where
  "put_member [] k v = [(k, v)]"
| "put_member ((k', v') # ms) k v =
     (if k' = k then (k, v) # ms else (k', v') # put_member ms k v)"

text \<open>
  Expressions are evaluated left to right; the world is threaded through, and only
  a call hands it to the host. \<^verbatim>\<open>||\<close> evaluates its right operand only when the left
  one is falsy.
\<close>

fun eval :: "('n::zero, 'w) host \<Rightarrow> 'n env \<Rightarrow> 'n expr \<Rightarrow> 'w \<Rightarrow> 'n js_value outcome \<times> 'w"
and eval_members ::
  "('n, 'w) host \<Rightarrow> 'n env \<Rightarrow> ('n key \<times> 'n expr) list \<Rightarrow> ('n key \<times> 'n js_value) list
     \<Rightarrow> 'w \<Rightarrow> 'n js_value outcome \<times> 'w"
and eval_args ::
  "('n, 'w) host \<Rightarrow> 'n env \<Rightarrow> 'n expr list \<Rightarrow> 'n js_value list \<Rightarrow> string
     \<Rightarrow> 'w \<Rightarrow> 'n js_value outcome \<times> 'w"
where
  "eval h env (ELit v) w = (Returns v, w)"
| "eval h env (EVar x) w =
     (case env x of
        None \<Rightarrow> (Throws (Thrown (''ReferenceError: '' @ x @ '' is not defined'')), w)
      | Some (c, v) \<Rightarrow> (Returns v, w))"
| "eval h env (EMember e k) w =
     (case eval h env e w of
        (Returns v, w') \<Rightarrow> (get_member v (VString k), w')
      | r \<Rightarrow> r)"
| "eval h env (EIndex e1 e2) w =
     (case eval h env e1 w of
        (Returns v1, w1) \<Rightarrow>
          (case eval h env e2 w1 of
             (Returns v2, w2) \<Rightarrow> (get_member v1 v2, w2)
           | r \<Rightarrow> r)
      | r \<Rightarrow> r)"
| "eval h env (EStrictEq e1 e2) w =
     (case eval h env e1 w of
        (Returns v1, w1) \<Rightarrow>
          (case eval h env e2 w1 of
             (Returns v2, w2) \<Rightarrow>
               (case strict_equal v1 v2 of
                  Returns b \<Rightarrow> (Returns (VBoolean b), w2)
                | Throws x \<Rightarrow> (Throws x, w2)
                | Unsupported \<Rightarrow> (Unsupported, w2))
           | r \<Rightarrow> r)
      | r \<Rightarrow> r)"
| "eval h env (EOr e1 e2) w =
     (case eval h env e1 w of
        (Returns v1, w1) \<Rightarrow> if truthy v1 then (Returns v1, w1) else eval h env e2 w1
      | r \<Rightarrow> r)"
| "eval h env (EObject ms) w = eval_members h env ms [] w"
| "eval h env (ECall f es) w = eval_args h env es [] f w"
| "eval_members h env [] acc w = (Returns (VObject acc), w)"
| "eval_members h env ((k, e) # ms) acc w =
     (case eval h env e w of
        (Returns v, w') \<Rightarrow> eval_members h env ms (put_member acc k v) w'
      | r \<Rightarrow> r)"
| "eval_args h env [] acc f w = h f acc w"
| "eval_args h env (e # es) acc f w =
     (case eval h env e w of
        (Returns v, w') \<Rightarrow> eval_args h env es (acc @ [v]) f w'
      | r \<Rightarrow> r)"

text \<open>
  A statement completes normally with the variables as they now are, by \<^verbatim>\<open>break\<close>,
  by \<^verbatim>\<open>return\<close> with a value, or by a throw; or it is stuck, outside the fragment.
\<close>

datatype 'n completion =
    Normal "'n env"
  | Broke "'n env"
  | Returned "'n js_value"
  | Threw js_error
  | Stuck

text \<open>
  \<^verbatim>\<open>switch\<close>: the clauses are tried in order against the value with \<^verbatim>\<open>===\<close>; from the
  first that matches, the statements of that clause and of the ones after it run
  (fall-through) until a \<^verbatim>\<open>break\<close>; with no match nothing runs. Assigning to a \<^verbatim>\<open>const\<close>
  throws; assigning to a name that is not bound is outside the fragment.
\<close>

fun exec :: "('n::zero, 'w) host \<Rightarrow> 'n stmt \<Rightarrow> 'n env \<Rightarrow> 'w \<Rightarrow> 'n completion \<times> 'w"
and exec_block ::
  "('n, 'w) host \<Rightarrow> 'n stmt list \<Rightarrow> 'n env \<Rightarrow> 'w \<Rightarrow> 'n completion \<times> 'w"
and exec_clauses ::
  "('n, 'w) host \<Rightarrow> bool \<Rightarrow> 'n js_value \<Rightarrow> ('n \<times> 'n stmt list) list \<Rightarrow> 'n env \<Rightarrow> 'w
     \<Rightarrow> 'n completion \<times> 'w"
where
  "exec h (SConst x e) env w =
     (case eval h env e w of
        (Returns v, w') \<Rightarrow> (Normal (env(x \<mapsto> (True, v))), w')
      | (Throws err, w') \<Rightarrow> (Threw err, w')
      | (Unsupported, w') \<Rightarrow> (Stuck, w'))"
| "exec h (SLet x e) env w =
     (case eval h env e w of
        (Returns v, w') \<Rightarrow> (Normal (env(x \<mapsto> (False, v))), w')
      | (Throws err, w') \<Rightarrow> (Threw err, w')
      | (Unsupported, w') \<Rightarrow> (Stuck, w'))"
| "exec h (SAssign x e) env w =
     (case env x of
        None \<Rightarrow> (Stuck, w)
      | Some (c, old) \<Rightarrow>
          (case eval h env e w of
             (Returns v, w') \<Rightarrow>
               if c then (Threw (TypeError ''Assignment to constant variable.''), w')
               else (Normal (env(x \<mapsto> (False, v))), w')
           | (Throws err, w') \<Rightarrow> (Threw err, w')
           | (Unsupported, w') \<Rightarrow> (Stuck, w')))"
| "exec h (SIf e ss) env w =
     (case eval h env e w of
        (Returns v, w') \<Rightarrow> if truthy v then exec_block h ss env w' else (Normal env, w')
      | (Throws err, w') \<Rightarrow> (Threw err, w')
      | (Unsupported, w') \<Rightarrow> (Stuck, w'))"
| "exec h (SSwitch e cs) env w =
     (case eval h env e w of
        (Returns v, w') \<Rightarrow>
          (case exec_clauses h False v cs env w' of
             (Broke env', w'') \<Rightarrow> (Normal env', w'')
           | r \<Rightarrow> r)
      | (Throws err, w') \<Rightarrow> (Threw err, w')
      | (Unsupported, w') \<Rightarrow> (Stuck, w'))"
| "exec h SBreak env w = (Broke env, w)"
| "exec h (SReturn e) env w =
     (case eval h env e w of
        (Returns v, w') \<Rightarrow> (Returned v, w')
      | (Throws err, w') \<Rightarrow> (Threw err, w')
      | (Unsupported, w') \<Rightarrow> (Stuck, w'))"
| "exec_block h [] env w = (Normal env, w)"
| "exec_block h (s # ss) env w =
     (case exec h s env w of
        (Normal env', w') \<Rightarrow> exec_block h ss env' w'
      | r \<Rightarrow> r)"
| "exec_clauses h entered v [] env w = (Normal env, w)"
| "exec_clauses h entered v ((n, ss) # cs) env w =
     (if entered \<or> v = VNumber n
      then case exec_block h ss env w of
             (Normal env', w') \<Rightarrow> exec_clauses h True v cs env' w'
           | r \<Rightarrow> r
      else exec_clauses h False v cs env w)"

text \<open>
  Scopes are not modelled, so a body is run only when they cannot matter: it
  declares its variables at its top level only, their names differ from each other
  and from the parameters, and none is bound where the function is defined. A
  variable read before its declaration is then unbound, and the read throws.
\<close>

fun top_declared :: "'n stmt list \<Rightarrow> string list" where
  "top_declared [] = []"
| "top_declared (SConst x e # ss) = x # top_declared ss"
| "top_declared (SLet x e # ss) = x # top_declared ss"
| "top_declared (s # ss) = top_declared ss"

fun declared :: "'n stmt \<Rightarrow> string list"
and declared_block :: "'n stmt list \<Rightarrow> string list"
and declared_clauses :: "('n \<times> 'n stmt list) list \<Rightarrow> string list"
where
  "declared (SConst x e) = [x]"
| "declared (SLet x e) = [x]"
| "declared (SIf e ss) = declared_block ss"
| "declared (SSwitch e cs) = declared_clauses cs"
| "declared (SAssign x e) = []"
| "declared SBreak = []"
| "declared (SReturn e) = []"
| "declared_block [] = []"
| "declared_block (s # ss) = declared s @ declared_block ss"
| "declared_clauses [] = []"
| "declared_clauses ((n, ss) # cs) = declared_block ss @ declared_clauses cs"

definition well_scoped :: "'n env \<Rightarrow> string list \<Rightarrow> 'n stmt list \<Rightarrow> bool" where
  "well_scoped env params body =
     (declared_block body = top_declared body
      \<and> distinct (params @ declared_block body)
      \<and> list_all (\<lambda>x. env x = None) (declared_block body))"

text \<open>A parameter with no argument is \<^verbatim>\<open>undefined\<close>; an argument too many is dropped.\<close>

fun bind_params :: "string list \<Rightarrow> 'n js_value list \<Rightarrow> 'n env \<Rightarrow> 'n env" where
  "bind_params [] args env = env"
| "bind_params (p # ps) [] env = bind_params ps [] (env(p \<mapsto> (False, VUndefined)))"
| "bind_params (p # ps) (a # as) env = bind_params ps as (env(p \<mapsto> (False, a)))"

text \<open>
  Calling a function with a block body, in the environment of its definition: the
  value returned (\<^verbatim>\<open>undefined\<close> when the body ends without \<^verbatim>\<open>return\<close>), or the
  exception thrown.
\<close>

definition call_function ::
  "('n::zero, 'w) host \<Rightarrow> 'n env \<Rightarrow> string list \<Rightarrow> 'n stmt list \<Rightarrow> 'n js_value list \<Rightarrow> 'w
     \<Rightarrow> 'n js_value outcome \<times> 'w" where
  "call_function h env params body args w =
     (if well_scoped env params body
      then case exec_block h body (bind_params params args env) w of
             (Returned v, w') \<Rightarrow> (Returns v, w')
           | (Normal env', w') \<Rightarrow> (Returns VUndefined, w')
           | (Threw err, w') \<Rightarrow> (Throws err, w')
           | (Broke env', w') \<Rightarrow> (Unsupported, w')
           | (Stuck, w') \<Rightarrow> (Unsupported, w')
      else (Unsupported, w))"

text \<open>
  The module-level constant the body names (lines 90 to 96), and the parameters
  and the body of \<^verbatim>\<open>handleApiResponse\<close> (lines 104 to 147), statement for statement.
\<close>

definition module_code :: "'n::ring_char_0 stmt list" where
  "module_code =
     [SConst ''statusCodeMapping''
        (EObject
           [(Idx 404, ELit (VString ''not_found'')),
            (Idx 425, ELit (VString ''too_early'')),
            (Idx 409, ELit (VString ''already_claimed'')),
            (Idx 423, ELit (VString ''locked'')),
            (Idx 429, ELit (VString ''blockchain_overload''))])]"

definition handleApiResponse_params :: "string list" where
  "handleApiResponse_params = [''response'', ''data'']"

definition handleApiResponse_body :: "'n::ring_char_0 stmt list" where
  "handleApiResponse_body =
     [SIf (EStrictEq (EMember (EVar ''response'') ''status'') (ELit (VNumber 200)))
        [SReturn
           (EObject
              [(Name ''success'', ELit (VBoolean True)),
               (Name ''info'', EVar ''data''),
               (Name ''claim'', EVar ''data'')])],
      SConst ''errorCode''
        (EOr (EIndex (EVar ''statusCodeMapping'') (EMember (EVar ''response'') ''status''))
             (ELit (VString ''unknown_error''))),
      SLet ''errorMessage'' (ELit (VString ''Unknown error occurred'')),
      SSwitch (EMember (EVar ''response'') ''status'')
        [(425,
          [SAssign ''errorMessage''
             (ELit (VString ''The nearest vesting date has not arrived yet'')),
           SBreak]),
         (409,
          [SAssign ''errorMessage'' (ELit (VString ''All Jettons have already been claimed'')),
           SBreak]),
         (423,
          [SAssign ''errorMessage'' (ELit (VString ''Airdrop is locked by admin'')),
           SBreak]),
         (429,
          [SAssign ''errorMessage'' (ELit (VString ''Blockchain is currently overloaded'')),
           SBreak]),
         (404,
          [SAssign ''errorMessage''
             (ELit (VString ''Airdrop not found or not processed yet'')),
           SBreak])],
      SReturn
        (EObject
           [(Name ''success'', ELit (VBoolean False)),
            (Name ''info'', EVar ''data''),
            (Name ''error'',
               EObject
                 [(Name ''code'', EVar ''errorCode''),
                  (Name ''message'', EVar ''errorMessage'')])])]"

text \<open>
  A call \<^verbatim>\<open>handleApiResponse(response, data)\<close>: the module's constant is initialised,
  then the body runs on the two arguments. A \<^verbatim>\<open>Response\<close> is an object whose member
  \<open>status\<close> is a number (the platform's accessor returns the status code and does
  nothing else); its other members are not read.
\<close>

definition run_handleApiResponse ::
  "('n::ring_char_0, 'w) host \<Rightarrow> 'n js_value \<Rightarrow> 'n js_value \<Rightarrow> 'w
     \<Rightarrow> 'n js_value outcome \<times> 'w" where
  "run_handleApiResponse h response data w =
     (case exec_block h module_code Map.empty w of
        (Normal env, w') \<Rightarrow>
          call_function h env handleApiResponse_params handleApiResponse_body
            [response, data] w'
      | (c, w') \<Rightarrow> (Unsupported, w'))"

text \<open>The object a typed result stands for; an \<open>info\<close> that is \<open>None\<close> is a key left out.\<close>

fun encode :: "'n js_value AirdropClaimResponse \<Rightarrow> 'n js_value" where
  "encode (AirdropClaimSuccess i c) =
     VObject [(Name ''success'', VBoolean True), (Name ''info'', i), (Name ''claim'', c)]"
| "encode (AirdropClaimError i e) =
     VObject
       ((Name ''success'', VBoolean False)
        # (case i of None \<Rightarrow> [] | Some v \<Rightarrow> [(Name ''info'', v)])
        @ [(Name ''error'',
             VObject
               [(Name ''code'', VString (code e)), (Name ''message'', VString (message e))])])"

section \<open>The interfaces as predicates on values\<close>

text \<open>
  What it is for a value to have one of the declared types (lines 1 to 52 and 72 to
  87): an object with the required members of the required kinds; an optional
  member may be missing or \<^verbatim>\<open>undefined\<close>; other members are allowed. The interface
  \<^verbatim>\<open>VestingParameters\<close> is empty: every value but \<^verbatim>\<open>null\<close> and \<^verbatim>\<open>undefined\<close> has it.
\<close>

fun js_field :: "'n js_value \<Rightarrow> string \<Rightarrow> 'n js_value" where
  "js_field (VObject ms) k = (case map_of ms (Name k) of None \<Rightarrow> VUndefined | Some v \<Rightarrow> v)"
| "js_field v k = VUndefined"

fun is_VObject :: "'n js_value \<Rightarrow> bool" where
  "is_VObject (VObject ms) = True"
| "is_VObject v = False"

fun is_VString :: "'n js_value \<Rightarrow> bool" where
  "is_VString (VString s) = True"
| "is_VString v = False"

fun is_VNumber :: "'n js_value \<Rightarrow> bool" where
  "is_VNumber (VNumber n) = True"
| "is_VNumber v = False"

definition is_optional_string :: "'n js_value \<Rightarrow> bool" where
  "is_optional_string v = (v = VUndefined \<or> is_VString v)"

definition is_UserClaimInfo :: "'n js_value \<Rightarrow> bool" where
  "is_UserClaimInfo v =
     (is_VObject v
      \<and> is_VString (js_field v ''jetton'')
      \<and> is_VString (js_field v ''available_jetton_amount'')
      \<and> is_VString (js_field v ''total_jetton_amount'')
      \<and> is_VString (js_field v ''claimed_jetton_amount'')
      \<and> js_field v ''vesting_parameters'' \<noteq> VNull)"

definition is_InternalMessage :: "'n js_value \<Rightarrow> bool" where
  "is_InternalMessage v =
     (is_VObject v
      \<and> is_VNumber (js_field v ''mode'')
      \<and> is_VString (js_field v ''address'')
      \<and> is_optional_string (js_field v ''state_init'')
      \<and> is_VString (js_field v ''payload'')
      \<and> is_VString (js_field v ''amount''))"

definition is_UserClaim :: "'n js_value \<Rightarrow> bool" where
  "is_UserClaim v = (is_UserClaimInfo v \<and> is_InternalMessage (js_field v ''claim_message''))"

definition is_AirdropClaimSuccess :: "'n js_value \<Rightarrow> bool" where
  "is_AirdropClaimSuccess v =
     (is_VObject v
      \<and> js_field v ''success'' = VBoolean True
      \<and> is_UserClaimInfo (js_field v ''info'')
      \<and> is_UserClaim (js_field v ''claim''))"

definition is_AirdropClaimError :: "'n js_value \<Rightarrow> bool" where
  "is_AirdropClaimError v =
     (is_VObject v
      \<and> js_field v ''success'' = VBoolean False
      \<and> (js_field v ''info'' = VUndefined \<or> is_UserClaimInfo (js_field v ''info''))
      \<and> is_VObject (js_field v ''error'')
      \<and> is_VString (js_field (js_field v ''error'') ''code'')
      \<and> is_VString (js_field (js_field v ''error'') ''message''))"

definition is_AirdropClaimResponse :: "'n js_value \<Rightarrow> bool" where
  "is_AirdropClaimResponse v = (is_AirdropClaimSuccess v \<or> is_AirdropClaimError v)"

text \<open>A host whose every function records its call in the world and returns \<^verbatim>\<open>undefined\<close>.\<close>

definition recording_host :: "(int, string list) host" where
  "recording_host f args w = (Returns VUndefined, w @ [f])"

section \<open>The classifier on the statuses of its table\<close>

text \<open>
  C1. For every body, a response with status 200 is classified as a success whose
  \<open>info\<close> and \<open>claim\<close> are both that body.
\<close>

theorem handleApiResponse_200:
  "handleApiResponse \<lparr> status = 200, json = j \<rparr> body = AirdropClaimSuccess body body
   \<and> success (handleApiResponse \<lparr> status = 200, json = j \<rparr> body)
   \<and> info (handleApiResponse \<lparr> status = 200, json = j \<rparr> body) = Some body
   \<and> claim (handleApiResponse \<lparr> status = 200, json = j \<rparr> body) = Some body"
  by (simp add: handleApiResponse_def)

text \<open>
  C2. For every body and each status of the table, the result is a failure that
  carries the body as \<open>info\<close> and the code and message of that status:
  404 not_found, 425 too_early, 409 already_claimed, 423 locked,
  429 blockchain_overload, each with its message.
\<close>

theorem handleApiResponse_table:
  "handleApiResponse \<lparr> status = 404, json = j \<rparr> body =
     AirdropClaimError (Some body)
       \<lparr> code = ''not_found'', message = ''Airdrop not found or not processed yet'' \<rparr>
   \<and> handleApiResponse \<lparr> status = 425, json = j \<rparr> body =
     AirdropClaimError (Some body)
       \<lparr> code = ''too_early'', message = ''The nearest vesting date has not arrived yet'' \<rparr>
   \<and> handleApiResponse \<lparr> status = 409, json = j \<rparr> body =
     AirdropClaimError (Some body)
       \<lparr> code = ''already_claimed'', message = ''All Jettons have already been claimed'' \<rparr>
   \<and> handleApiResponse \<lparr> status = 423, json = j \<rparr> body =
     AirdropClaimError (Some body)
       \<lparr> code = ''locked'', message = ''Airdrop is locked by admin'' \<rparr>
   \<and> handleApiResponse \<lparr> status = 429, json = j \<rparr> body =
     AirdropClaimError (Some body)
       \<lparr> code = ''blockchain_overload'', message = ''Blockchain is currently overloaded'' \<rparr>"
  by (simp add: handleApiResponse_def statusCodeMapping_def or_default_def)

text \<open>
  C3. For every body and every status outside 200, 404, 425, 409, 423 and 429, the
  result is a failure with the code unknown_error, the message
  "Unknown error occurred", and the body as \<open>info\<close>.
\<close>

theorem handleApiResponse_unknown:
  assumes "status response \<notin> {200, 404, 425, 409, 423, 429}"
  shows "handleApiResponse response body =
           AirdropClaimError (Some body)
             \<lparr> code = ''unknown_error'', message = ''Unknown error occurred'' \<rparr>"
  using assms by (simp add: handleApiResponse_def statusCodeMapping_def or_default_def)

theorem handleApiResponse_unknown_witness:
  "status \<lparr> status = 500, json = Rejected (SyntaxError ''Unexpected token <'') \<rparr>
     \<notin> {200, 404, 425, 409, 423, 429 :: int}
   \<and> handleApiResponse
         \<lparr> status = 500, json = Rejected (SyntaxError ''Unexpected token <'') \<rparr> ''Bad Gateway'' =
       AirdropClaimError (Some ''Bad Gateway'')
         \<lparr> code = ''unknown_error'', message = ''Unknown error occurred'' \<rparr>"
  using handleApiResponse_unknown
    [of "\<lparr> status = 500, json = Rejected (SyntaxError ''Unexpected token <'') \<rparr>" "''Bad Gateway''"]
  by simp

section \<open>The classifier neither throws nor reaches the host\<close>

text \<open>
  The fragment can fail and can have effects: reading a member of a \<^verbatim>\<open>null\<close> body
  throws, and a call changes the world of the host.
\<close>

lemma member_of_null_throws:
  "eval h [''data'' \<mapsto> (False, VNull)] (EMember (EVar ''data'') ''jetton'') w
     = (Throws (TypeError ''Cannot read properties of null''), w)"
  by simp

lemma call_reaches_host:
  "eval recording_host Map.empty (ECall ''fetch'' [ELit (VString ''u'')]) []
     = (Returns VUndefined, [''fetch''])"
  by (simp add: recording_host_def)

text \<open>
  Run on a response object whose \<open>status\<close> is the number \<open>s\<close> and on any value as
  the body, the code returns, with the world as it was, the object of the typed
  result.
\<close>

lemma run_handleApiResponse_value:
  "run_handleApiResponse h (VObject ((Name ''status'', VNumber (of_int s)) # rest)) data w
     = (Returns (encode (handleApiResponse \<lparr> status = s, json = j \<rparr> data)), w)"
  by (simp add: run_handleApiResponse_def module_code_def call_function_def well_scoped_def
      handleApiResponse_params_def handleApiResponse_body_def handleApiResponse_def
      statusCodeMapping_def or_default_def Let_def)

text \<open>
  C8, as stated, fails in its last part: on status 200 and the body \<^verbatim>\<open>null\<close> the
  code returns \<^verbatim>\<open>{success: true, info: null, claim: null}\<close>, which is neither an
  \<^verbatim>\<open>AirdropClaimSuccess\<close> (its \<open>info\<close> is no \<^verbatim>\<open>UserClaimInfo\<close>) nor an
  \<^verbatim>\<open>AirdropClaimError\<close>.
\<close>

theorem handleApiResponse_union_counterexample:
  "run_handleApiResponse recording_host (VObject [(Name ''status'', VNumber 200)]) VNull []
     = (Returns
          (VObject
             [(Name ''success'', VBoolean True), (Name ''info'', VNull), (Name ''claim'', VNull)]),
        [])
   \<and> \<not> is_AirdropClaimResponse
         (VObject
            [(Name ''success'', VBoolean True), (Name ''info'', VNull), (Name ''claim'', VNull)]
          :: int js_value)"
  using run_handleApiResponse_value [of recording_host 200 "[]" VNull "[]" Pending]
  by (simp add: handleApiResponse_def is_AirdropClaimResponse_def
      is_AirdropClaimSuccess_def is_AirdropClaimError_def is_UserClaimInfo_def)

text \<open>
  C8, amended. For every integer status, every body value (\<^verbatim>\<open>null\<close> and \<^verbatim>\<open>undefined\<close>
  included), every host and every world, the code does not throw, does not leave
  the fragment and does not change the world: it returns the success object
  carrying the body as \<open>info\<close> and \<open>claim\<close> on status 200 and the failure object
  carrying the body as \<open>info\<close> and the error of the status otherwise (the object of
  the typed result). That object is a member of the union
  \<^verbatim>\<open>AirdropClaimResponse\<close> exactly when the body is a \<^verbatim>\<open>UserClaim\<close>, on status 200,
  and when the body is a \<^verbatim>\<open>UserClaimInfo\<close> or \<^verbatim>\<open>undefined\<close>, on any other status.
\<close>

theorem handleApiResponse_returns:
  "run_handleApiResponse h (VObject ((Name ''status'', VNumber (of_int s)) # rest)) data w
     = (Returns (encode (handleApiResponse \<lparr> status = s, json = j \<rparr> data)), w)
   \<and> encode (handleApiResponse \<lparr> status = 200, json = j \<rparr> data)
     = VObject [(Name ''success'', VBoolean True), (Name ''info'', data), (Name ''claim'', data)]
   \<and> js_field (encode (handleApiResponse \<lparr> status = s, json = j \<rparr> data)) ''success''
     = VBoolean (s = 200)
   \<and> js_field (encode (handleApiResponse \<lparr> status = s, json = j \<rparr> data)) ''info'' = data
   \<and> is_AirdropClaimResponse (encode (handleApiResponse \<lparr> status = s, json = j \<rparr> data))
     = (if s = 200 then is_UserClaim data else data = VUndefined \<or> is_UserClaimInfo data)"
proof (intro conjI)
  show "js_field (encode (handleApiResponse \<lparr> status = s, json = j \<rparr> data)) ''success''
     = VBoolean (s = 200)"
    by (simp add: handleApiResponse_def Let_def)
next
  show "js_field (encode (handleApiResponse \<lparr> status = s, json = j \<rparr> data)) ''info'' = data"
    by (simp add: handleApiResponse_def Let_def)
next
  show "run_handleApiResponse h (VObject ((Name ''status'', VNumber (of_int s)) # rest)) data w
     = (Returns (encode (handleApiResponse \<lparr> status = s, json = j \<rparr> data)), w)"
    by (rule run_handleApiResponse_value)
next
  show "encode (handleApiResponse \<lparr> status = 200, json = j \<rparr> data)
     = VObject [(Name ''success'', VBoolean True), (Name ''info'', data), (Name ''claim'', data)]"
    by (simp add: handleApiResponse_def)
next
  show "is_AirdropClaimResponse (encode (handleApiResponse \<lparr> status = s, json = j \<rparr> data))
     = (if s = 200 then is_UserClaim data else data = VUndefined \<or> is_UserClaimInfo data)"
    by (auto simp add: handleApiResponse_def Let_def is_AirdropClaimResponse_def
        is_AirdropClaimSuccess_def is_AirdropClaimError_def is_UserClaim_def)
qed

section \<open>The transaction built from a claim\<close>

text \<open>
  C5. For every claim and clock reading, the descriptor has exactly one message;
  its address, amount and payload are those of the claim's message, its
  \<open>stateInit\<close> is the message's \<open>state_init\<close>; and \<open>validUntil\<close> is the floor of the
  clock in seconds plus 300 (the whole seconds of the millisecond clock, plus 300).
\<close>

theorem getTxFromUserClaim_shape:
  "length (messages (getTxFromUserClaim now userClaim)) = 1
   \<and> messages (getTxFromUserClaim now userClaim) =
       [\<lparr> address = InternalMessage.address (claim_message userClaim),
          amount = InternalMessage.amount (claim_message userClaim),
          payload = InternalMessage.payload (claim_message userClaim),
          stateInit = state_init (claim_message userClaim) \<rparr>]
   \<and> validUntil (getTxFromUserClaim now userClaim) = \<lfloor>real_of_int now / 1000\<rfloor> + 300
   \<and> validUntil (getTxFromUserClaim now userClaim) = now div 1000 + 300"
proof -
  have "\<lfloor>real_of_int now / 1000\<rfloor> = now div 1000"
    using floor_divide_of_int_eq [of now 1000, where ?'a = real] by simp
  then show ?thesis
    by (simp add: getTxFromUserClaim_def)
qed

text \<open>
  C10. The messages of the descriptor depend on the address, amount, payload and
  \<open>state_init\<close> of the claim's message only: two claims that agree on these four
  give the same messages, whatever their jetton, amounts, vesting parameters and
  message modes, and whatever the clock; at one clock reading the descriptors are
  equal.
\<close>

theorem getTxFromUserClaim_depends_on_message:
  assumes "InternalMessage.address (claim_message c1) = InternalMessage.address (claim_message c2)"
    and "InternalMessage.amount (claim_message c1) = InternalMessage.amount (claim_message c2)"
    and "InternalMessage.payload (claim_message c1) = InternalMessage.payload (claim_message c2)"
    and "state_init (claim_message c1) = state_init (claim_message c2)"
  shows "messages (getTxFromUserClaim now1 c1) = messages (getTxFromUserClaim now2 c2)
         \<and> getTxFromUserClaim now c1 = getTxFromUserClaim now c2"
  using assms by (simp add: getTxFromUserClaim_def)

theorem getTxFromUserClaim_depends_on_message_witness:
  "InternalMessage.address (claim_message example_claim)
     = InternalMessage.address (claim_message other_claim)
   \<and> InternalMessage.amount (claim_message example_claim)
     = InternalMessage.amount (claim_message other_claim)
   \<and> InternalMessage.payload (claim_message example_claim)
     = InternalMessage.payload (claim_message other_claim)
   \<and> state_init (claim_message example_claim) = state_init (claim_message other_claim)
   \<and> mode (claim_message example_claim) \<noteq> mode (claim_message other_claim)
   \<and> jetton example_claim \<noteq> jetton other_claim
   \<and> messages (getTxFromUserClaim 1700000000123 example_claim)
     = messages (getTxFromUserClaim 1800000000999 other_claim)
   \<and> getTxFromUserClaim 1700000000123 example_claim
     = getTxFromUserClaim 1700000000123 other_claim
   \<and> getTxFromUserClaim 1700000000123 example_claim
     = \<lparr> validUntil = 1700000300,
         messages = [\<lparr> address = ''A'', amount = ''100'', payload = ''P'', stateInit = None \<rparr>] \<rparr>"
proof -
  have h: "InternalMessage.address (claim_message example_claim)
             = InternalMessage.address (claim_message other_claim)"
    "InternalMessage.amount (claim_message example_claim)
             = InternalMessage.amount (claim_message other_claim)"
    "InternalMessage.payload (claim_message example_claim)
             = InternalMessage.payload (claim_message other_claim)"
    "state_init (claim_message example_claim) = state_init (claim_message other_claim)"
    by (simp_all add: example_claim_def other_claim_def)
  have d: "mode (claim_message example_claim) \<noteq> mode (claim_message other_claim)"
    "jetton example_claim \<noteq> jetton other_claim"
    by (simp_all add: example_claim_def other_claim_def)
  have v: "getTxFromUserClaim 1700000000123 example_claim
     = \<lparr> validUntil = 1700000300,
         messages = [\<lparr> address = ''A'', amount = ''100'', payload = ''P'', stateInit = None \<rparr>] \<rparr>"
    by (simp add: getTxFromUserClaim_def example_claim_def)
  note t = getTxFromUserClaim_depends_on_message
         [OF h, of 1700000000123 1800000000999 1700000000123]
  show ?thesis
    by (intro conjI) (fact h d v t [THEN conjunct1] t [THEN conjunct2])+
qed

section \<open>Fetching: the request and the settled result\<close>

lemma fetchAirdropClaim_promise:
  "fst (fetchAirdropClaim airdropId connectedAddress testnet_arg net) =
     (case respond net
             (url (case testnet_arg of None \<Rightarrow> False | Some b \<Rightarrow> b) connectedAddress airdropId) of
        Fulfilled response \<Rightarrow>
          (case json response of
             Fulfilled data \<Rightarrow> Fulfilled (handleApiResponse response data)
           | Rejected e \<Rightarrow>
               Fulfilled (AirdropClaimError None
                 \<lparr> code = ''network_error'',
                   message = ''Network error. Please try again later.'' \<rparr>)
           | Pending \<Rightarrow> Pending)
      | Rejected e \<Rightarrow>
          Fulfilled (AirdropClaimError None
            \<lparr> code = ''network_error'',
              message = ''Network error. Please try again later.'' \<rparr>)
      | Pending \<Rightarrow> Pending)"
  by (simp add: fetchAirdropClaim_def fetch_def Let_def split: promise.splits)

lemma fetchAirdropClaim_requests:
  "requests (snd (fetchAirdropClaim airdropId connectedAddress testnet_arg net)) =
     requests net
       @ [url (case testnet_arg of None \<Rightarrow> False | Some b \<Rightarrow> b) connectedAddress airdropId]"
  by (simp add: fetchAirdropClaim_def fetch_def Let_def)

lemma info_handleApiResponse: "info (handleApiResponse response body) = Some body"
  by (simp add: handleApiResponse_def Let_def)

text \<open>
  C6. For every airdrop id, address and flag, the call adds exactly one request
  to the network's list, and its URL is
  \<^verbatim>\<open>https://testnet-airdrop.tonapi.io/v2/airdrop/claim/{address}?id={airdropId}\<close> when
  the flag is true and the same with \<^verbatim>\<open>mainnet\<close> when it is false (or left out),
  the address and the id inserted as they are.
\<close>

theorem fetchAirdropClaim_url:
  "requests (snd (fetchAirdropClaim airdropId connectedAddress (Some True) net)) =
     requests net
       @ [''https://testnet-airdrop.tonapi.io/v2/airdrop/claim/'' @ connectedAddress
            @ ''?id='' @ airdropId]
   \<and> requests (snd (fetchAirdropClaim airdropId connectedAddress (Some False) net)) =
     requests net
       @ [''https://mainnet-airdrop.tonapi.io/v2/airdrop/claim/'' @ connectedAddress
            @ ''?id='' @ airdropId]
   \<and> requests (snd (fetchAirdropClaim airdropId connectedAddress None net)) =
     requests net
       @ [''https://mainnet-airdrop.tonapi.io/v2/airdrop/claim/'' @ connectedAddress
            @ ''?id='' @ airdropId]"
  by (simp add: fetchAirdropClaim_requests url_def baseUrl_def)

text \<open>
  C4. Whatever the network does, the promise returned is never rejected. When the
  exchange fails (the request is rejected, by a connection failure, a timeout or
  any other exception, or the response arrives and reading its body as JSON is
  rejected), the promise is fulfilled with the failure
  \<open>network_error\<close>, "Network error. Please try again later.", and no \<open>info\<close>.
\<close>

theorem fetchAirdropClaim_network_error:
  "(\<forall>e. fst (fetchAirdropClaim airdropId connectedAddress testnet_arg net) \<noteq> Rejected e)
   \<and> ((\<exists>e. respond net
             (url (case testnet_arg of None \<Rightarrow> False | Some b \<Rightarrow> b) connectedAddress airdropId)
           = Rejected e)
        \<or> (\<exists>response e.
             respond net
               (url (case testnet_arg of None \<Rightarrow> False | Some b \<Rightarrow> b) connectedAddress airdropId)
             = Fulfilled response \<and> json response = Rejected e)
      \<longrightarrow> fst (fetchAirdropClaim airdropId connectedAddress testnet_arg net) =
            Fulfilled (AirdropClaimError None
              \<lparr> code = ''network_error'',
                message = ''Network error. Please try again later.'' \<rparr>)
          \<and> info (AirdropClaimError None
              \<lparr> code = ''network_error'',
                message = ''Network error. Please try again later.'' \<rparr> :: 'a AirdropClaimResponse)
            = None)"
  by (auto simp add: fetchAirdropClaim_promise split: promise.splits)

theorem fetchAirdropClaim_network_error_witness:
  "respond offline_network (url False ''EQaddr'' ''a1'') = Rejected (TypeError ''Failed to fetch'')
   \<and> fst (fetchAirdropClaim ''a1'' ''EQaddr'' None offline_network) =
       Fulfilled (AirdropClaimError None
         \<lparr> code = ''network_error'', message = ''Network error. Please try again later.'' \<rparr>)
   \<and> respond html_network (url True ''EQaddr'' ''a1'') =
       Fulfilled \<lparr> status = 502, json = Rejected (SyntaxError ''Unexpected token <'') \<rparr>
   \<and> fst (fetchAirdropClaim ''a1'' ''EQaddr'' (Some True) html_network) =
       Fulfilled (AirdropClaimError None
         \<lparr> code = ''network_error'', message = ''Network error. Please try again later.'' \<rparr>)"
proof -
  have a: "respond offline_network (url False ''EQaddr'' ''a1'')
             = Rejected (TypeError ''Failed to fetch'')"
    by (simp add: offline_network_def)
  have b: "respond html_network (url True ''EQaddr'' ''a1'') =
       Fulfilled \<lparr> status = 502, json = Rejected (SyntaxError ''Unexpected token <'') \<rparr>"
    by (simp add: html_network_def)
  from fetchAirdropClaim_network_error [of "''a1''" "''EQaddr''" None offline_network] a
  have c: "fst (fetchAirdropClaim ''a1'' ''EQaddr'' None offline_network) =
       Fulfilled (AirdropClaimError None
         \<lparr> code = ''network_error'', message = ''Network error. Please try again later.'' \<rparr>)"
    by simp
  from fetchAirdropClaim_network_error [of "''a1''" "''EQaddr''" "Some True" html_network] b
  have d: "fst (fetchAirdropClaim ''a1'' ''EQaddr'' (Some True) html_network) =
       Fulfilled (AirdropClaimError None
         \<lparr> code = ''network_error'', message = ''Network error. Please try again later.'' \<rparr>)"
    by simp
  from a b c d show ?thesis by simp
qed

text \<open>
  C9. Every result of the classifier on a status other than 200 is a failure that
  carries the body as \<open>info\<close>; and a result of a fetch that is a failure without
  \<open>info\<close> has the error code \<open>network_error\<close>.
\<close>

theorem failure_without_info_is_network_error:
  "(status response \<noteq> 200 \<longrightarrow>
      \<not> success (handleApiResponse response body)
      \<and> info (handleApiResponse response body) = Some body)
   \<and> (fst (fetchAirdropClaim airdropId connectedAddress testnet_arg net) = Fulfilled r
        \<and> \<not> success r \<and> info r = None
      \<longrightarrow> map_option code (error r) = Some ''network_error'')"
proof (intro conjI impI)
  assume "status response \<noteq> 200"
  then show "\<not> success (handleApiResponse response body)"
    by (simp add: handleApiResponse_def Let_def)
next
  show "info (handleApiResponse response body) = Some body"
    by (rule info_handleApiResponse)
next
  assume a: "fst (fetchAirdropClaim airdropId connectedAddress testnet_arg net) = Fulfilled r
    \<and> \<not> success r \<and> info r = None"
  then show "map_option code (error r) = Some ''network_error''"
    by (auto simp add: fetchAirdropClaim_promise info_handleApiResponse
        split: promise.splits)
qed

theorem failure_without_info_is_network_error_witness:
  "status \<lparr> status = 500, json = Fulfilled (JNull :: int json_value) \<rparr> \<noteq> 200
   \<and> \<not> success (handleApiResponse \<lparr> status = 500, json = Fulfilled JNull \<rparr> (JNull :: int json_value))
   \<and> info (handleApiResponse \<lparr> status = 500, json = Fulfilled JNull \<rparr> (JNull :: int json_value))
       = Some JNull
   \<and> fst (fetchAirdropClaim ''a1'' ''EQaddr'' None offline_network) =
       Fulfilled (AirdropClaimError None
         \<lparr> code = ''network_error'', message = ''Network error. Please try again later.'' \<rparr>)
   \<and> \<not> success (AirdropClaimError None
         \<lparr> code = ''network_error'', message = ''Network error. Please try again later.'' \<rparr>
         :: int json_value AirdropClaimResponse)
   \<and> info (AirdropClaimError None
         \<lparr> code = ''network_error'', message = ''Network error. Please try again later.'' \<rparr>
         :: int json_value AirdropClaimResponse) = None
   \<and> map_option code (error (AirdropClaimError None
         \<lparr> code = ''network_error'', message = ''Network error. Please try again later.'' \<rparr>
         :: int json_value AirdropClaimResponse)) = Some ''network_error''"
proof -
  have a: "fst (fetchAirdropClaim ''a1'' ''EQaddr'' None offline_network) =
       Fulfilled (AirdropClaimError None
         \<lparr> code = ''network_error'', message = ''Network error. Please try again later.'' \<rparr>)"
    by (simp add: fetchAirdropClaim_promise offline_network_def)
  from failure_without_info_is_network_error
         [of "\<lparr> status = 500, json = Fulfilled (JNull :: int json_value) \<rparr>" JNull
             "''a1''" "''EQaddr''" None offline_network
             "AirdropClaimError None
               \<lparr> code = ''network_error'',
                 message = ''Network error. Please try again later.'' \<rparr>"] a
  show ?thesis by simp
qed

section \<open>The amounts are passed through\<close>

lemma decimal_amount_200: "decimal_amount ''200'' = Some 200"
  by (simp add: decimal_amount_def is_digit_def)

lemma decimal_amount_100: "decimal_amount ''100'' = Some 100"
  by (simp add: decimal_amount_def is_digit_def)

lemma overdrawn_body_not_le: "\<not> spec_available_le_total overdrawn_body"
  by (simp add: spec_available_le_total_def amount_member_def overdrawn_body_def
      decimal_amount_200 decimal_amount_100)

text \<open>
  C7, as stated, fails: the classifier checks no amount. On status 200 and a body
  with 200 available of a total of 100, the result carries that body as \<open>info\<close>,
  and its available amount exceeds its total.
\<close>

theorem info_amounts_counterexample:
  "info (handleApiResponse \<lparr> status = 200, json = Fulfilled overdrawn_body \<rparr> overdrawn_body)
     = Some overdrawn_body
   \<and> \<not> spec_available_le_total overdrawn_body"
  by (simp add: handleApiResponse_def overdrawn_body_not_le)



text \<open>
  C7, amended. The ClaimInfo carried under \<open>info\<close> by a result of the module is the
  response body, unchanged: the classifier returns the body it was given as
  \<open>info\<close>, for every status, and the \<open>info\<close> of a fetched result is the body
  parsed from the response. So its available amount is at most its total amount
  exactly when that holds of the body the API sent; the module neither checks nor
  establishes the inequality.
\<close>

theorem info_amounts_passed_through:
  "info (handleApiResponse response body) = Some body
   \<and> map_option spec_available_le_total (info (handleApiResponse response' v))
       = Some (spec_available_le_total v)
   \<and> (fst (fetchAirdropClaim airdropId connectedAddress testnet_arg net) = Fulfilled r
        \<and> info r = Some i
      \<longrightarrow> (\<exists>rsp.
            respond net
              (url (case testnet_arg of None \<Rightarrow> False | Some b \<Rightarrow> b) connectedAddress airdropId)
              = Fulfilled rsp
            \<and> json rsp = Fulfilled i))"
  by (auto simp add: info_handleApiResponse fetchAirdropClaim_promise split: promise.splits)

theorem info_amounts_passed_through_witness:
  "fst (fetchAirdropClaim ''a1'' ''EQaddr'' (Some True) overdrawn_network)
     = Fulfilled (AirdropClaimSuccess overdrawn_body overdrawn_body)
   \<and> info (AirdropClaimSuccess overdrawn_body overdrawn_body) = Some overdrawn_body
   \<and> (\<exists>rsp. respond overdrawn_network (url True ''EQaddr'' ''a1'') = Fulfilled rsp
             \<and> json rsp = Fulfilled overdrawn_body)
   \<and> map_option spec_available_le_total
       (info (handleApiResponse \<lparr> status = 200, json = Fulfilled overdrawn_body \<rparr> overdrawn_body))
     = Some False"
proof -
  have a: "fst (fetchAirdropClaim ''a1'' ''EQaddr'' (Some True) overdrawn_network)
     = Fulfilled (AirdropClaimSuccess overdrawn_body overdrawn_body)"
    by (simp add: fetchAirdropClaim_promise overdrawn_network_def handleApiResponse_def)
  from info_amounts_passed_through
         [of "\<lparr> status = 200, json = Fulfilled overdrawn_body \<rparr>" overdrawn_body
             "\<lparr> status = 200, json = Fulfilled overdrawn_body \<rparr>" overdrawn_body
             "''a1''" "''EQaddr''" "Some True" overdrawn_network
             "AirdropClaimSuccess overdrawn_body overdrawn_body" overdrawn_body] a
  show ?thesis by (simp add: overdrawn_body_not_le)
qed

end
